theory Spec2Isabelle
  imports Main
begin

section \<open>The command surface of keg (cmd.go)\<close>

text \<open>
  \<^verbatim>\<open>cmd.go\<close> holds the commands of the \<^verbatim>\<open>keg\<close> tool: each \<^verbatim>\<open>Call\<close> resolves the
  current keg, then drives the node store, the index (the dex) and the publisher
  through functions that live in the repository's other files and in libraries.
  A command is embedded as a function from its arguments and the world to the
  \<^verbatim>\<open>error\<close> it returns (or the run-time panic that stops it) and the world it
  leaves.  What \<^verbatim>\<open>cmd.go\<close> calls but does not define is a field of the record
  \<open>sys\<close>, so that the theorems hold whatever those functions do.  The exceptions
  are the string functions of the standard library, which are defined here, and
  three query methods of the dex, which are modelled from the spec.  The commands
  \<^verbatim>\<open>current\<close>, \<^verbatim>\<open>dex update\<close> and \<^verbatim>\<open>init\<close> are not modelled.
\<close>

subsection \<open>Values\<close>

text \<open>\<^verbatim>\<open>Local{Path, Name}\<close>: the keg a command works on.\<close>

record Local =
  Path :: string
  Name :: string

text \<open>
  An entry of the dex.  \<^verbatim>\<open>cmd.go\<close> reads the fields \<^verbatim>\<open>N\<close> (the node id, an
  \<^verbatim>\<open>int\<close> handed to \<^verbatim>\<open>strconv.Itoa\<close>) and \<^verbatim>\<open>T\<close> (the title), compares an entry
  with \<^verbatim>\<open>nil\<close> (line 400) and declares \<^verbatim>\<open>var dex *Dex\<close> (line 143): entries and
  the dex are handled through pointers, modelled as \<open>option\<close> with \<open>None\<close> for
  \<^verbatim>\<open>nil\<close>.  No arithmetic is done on \<^verbatim>\<open>N\<close>, so it is an \<open>int\<close>.
\<close>

record DexEntry =
  N :: int
  T :: string

type_synonym Dex = "DexEntry list"

text \<open>
  The errors \<^verbatim>\<open>cmd.go\<close> makes itself, the error of \<^verbatim>\<open>strconv.Atoi\<close> on an
  input it rejects, and \<open>Foreign\<close> for any error value handed back by a function
  outside \<^verbatim>\<open>cmd.go\<close>.
\<close>

datatype error =
    NoKegsFound
  | UsageError
  | LatestMissing
  | UnableToChoose
  | NodeMissing string string
  | NumError string
  | Foreign string

text \<open>The two run-time panics the code of \<^verbatim>\<open>cmd.go\<close> can raise itself.\<close>

datatype panic = NilDereference | IndexOutOfRange

text \<open>What a \<^verbatim>\<open>Call\<close> ends with: \<^verbatim>\<open>return nil\<close>, \<^verbatim>\<open>return err\<close>, or a panic.\<close>

datatype result = Success | Failure error | Panicked panic

text \<open>
  What a command has done, in order: what it wrote to the terminal and the log,
  the text it handed to \<^verbatim>\<open>ParseDex\<close>, and each call that can change the keg, with
  the \<^verbatim>\<open>error\<close> that call returned (\<open>None\<close> for \<^verbatim>\<open>nil\<close>).
\<close>

datatype event =
    TermPrint string
  | FmtPrint string
  | Paged string
  | LogPrintln "string list"
  | Helped "string list" "error option"
  | Parsed string
  | FileEdited string "error option"
  | Removed string "error option"
  | NodeMade string "DexEntry option" "error option"
  | SampleWritten string "error option"
  | NodeEdited string int "error option"
  | DexMade string "error option"
  | DexUpdated string "error option"
  | Published string "error option"

text \<open>
  The world: \<open>outside\<close> is the state of everything beyond the process (file system,
  environment, configuration, terminal), of a type the model does not fix;
  \<open>trace\<close> is the list of events so far.
\<close>

record 's world =
  outside :: 's
  trace :: "event list"

subsection \<open>Library functions with a fixed meaning\<close>

text \<open>
  \<^verbatim>\<open>strconv.Atoi\<close>: an optional sign, then one or more decimal digits, the value
  within the 64-bit \<^verbatim>\<open>int\<close>; any other input gives a \<^verbatim>\<open>*NumError\<close> for it.
\<close>

definition digit_val :: "char \<Rightarrow> int option" where
  "digit_val c =
     (let n = (of_char c :: int) in if 48 \<le> n \<and> n \<le> 57 then Some (n - 48) else None)"

fun digits_value :: "int \<Rightarrow> string \<Rightarrow> int option" where
  "digits_value acc [] = Some acc"
| "digits_value acc (c # cs) =
     (case digit_val c of None \<Rightarrow> None | Some d \<Rightarrow> digits_value (acc * 10 + d) cs)"

definition Atoi :: "string \<Rightarrow> error + int" where
  "Atoi s =
     (let (neg, ds) =
            (case s of
               [] \<Rightarrow> (False, [])
             | c # cs \<Rightarrow>
                 if c = CHR ''-'' then (True, cs)
                 else if c = CHR ''+'' then (False, cs)
                 else (False, s))
      in if ds = [] then Inl (NumError s)
         else case digits_value 0 ds of
                None \<Rightarrow> Inl (NumError s)
              | Some un \<Rightarrow>
                  if (\<not> neg \<and> un \<ge> 2 ^ 63) \<or> (neg \<and> un > 2 ^ 63) then Inl (NumError s)
                  else Inr (if neg then - un else un))"

text \<open>\<^verbatim>\<open>strconv.Itoa\<close>: the decimal digits of an \<^verbatim>\<open>int\<close>, a minus sign first when negative.\<close>

fun digits :: "nat \<Rightarrow> string" where
  "digits n =
     (if n < 10 then [''0123456789'' ! n]
      else digits (n div 10) @ [''0123456789'' ! (n mod 10)])"

declare digits.simps [simp del]

definition Itoa :: "int \<Rightarrow> string" where
  "Itoa i = (if i < 0 then CHR ''-'' # digits (nat (- i)) else digits (nat i))"

text \<open>\<^verbatim>\<open>strings.Join(elems, sep)\<close>.\<close>

fun strings_Join :: "string list \<Rightarrow> string \<Rightarrow> string" where
  "strings_Join [] sep = []"
| "strings_Join [x] sep = x"
| "strings_Join (x # y # ys) sep = x @ sep @ strings_Join (y # ys) sep"

subsection \<open>What cmd.go calls and does not define\<close>

text \<open>
  One field per function.  A function that only reads takes the outside state; one
  that can change it returns the new state as well.  A Go result \<^verbatim>\<open>(v, err)\<close> is
  a pair, so that a caller that drops \<^verbatim>\<open>err\<close> still gets the \<^verbatim>\<open>v\<close> that came
  with it.
  \<^item> libraries: \<^verbatim>\<open>os.Getenv\<close>, \<^verbatim>\<open>os.Getwd\<close>, \<^verbatim>\<open>os.RemoveAll\<close>, \<^verbatim>\<open>filepath.Join\<close>,
    \<^verbatim>\<open>filepath.Base\<close>, \<^verbatim>\<open>filepath.Dir\<close>, \<^verbatim>\<open>fs.Exists\<close>, \<^verbatim>\<open>fs.Tilde2Home\<close>,
    \<^verbatim>\<open>file.Head\<close>, \<^verbatim>\<open>file.Edit\<close>, \<^verbatim>\<open>file.IsEmpty\<close>, \<^verbatim>\<open>term.IsInteractive\<close>,
    \<^verbatim>\<open>help.Cmd.Call\<close>, and the \<^verbatim>\<open>C\<close> and \<^verbatim>\<open>Get\<close> methods of a Bonzai command
    (\<open>conf_C\<close> on the \<^verbatim>\<open>keg\<close> command; \<open>vars_Get\<close> takes the name of the command
    it is called on);
  \<^item> the repository's other files: \<^verbatim>\<open>ReadDex\<close>, \<^verbatim>\<open>ParseDex\<close>, \<^verbatim>\<open>MakeDex\<close>,
    \<^verbatim>\<open>DexUpdate\<close>, \<^verbatim>\<open>Publish\<close>, \<^verbatim>\<open>Last\<close>, \<^verbatim>\<open>MakeNode\<close>, \<^verbatim>\<open>WriteSample\<close>, \<^verbatim>\<open>Edit\<close>, the
    entry's \<^verbatim>\<open>ID\<close> method and the renderings \<^verbatim>\<open>Pretty\<close> and \<^verbatim>\<open>AsIncludes\<close>;
  \<^item> \<open>choose_prompt\<close> (the numbered-choice prompt of the terminal) and \<open>rand_draw\<close>
    (the next draw of the random source), used by the two query methods modelled
    below.
\<close>

record 's sys =
  Getenv :: "string \<Rightarrow> 's \<Rightarrow> string"
  Getwd :: "'s \<Rightarrow> string \<times> error option"
  conf_C :: "string \<Rightarrow> 's \<Rightarrow> string \<times> error option"
  vars_Get :: "string \<Rightarrow> string \<Rightarrow> 's \<Rightarrow> string \<times> error option"
  fs_Exists :: "string \<Rightarrow> 's \<Rightarrow> bool"
  fs_Tilde2Home :: "string \<Rightarrow> 's \<Rightarrow> string"
  filepath_Join :: "string list \<Rightarrow> string"
  filepath_Base :: "string \<Rightarrow> string"
  filepath_Dir :: "string \<Rightarrow> string"
  term_IsInteractive :: "'s \<Rightarrow> bool"
  file_Head :: "string \<Rightarrow> int \<Rightarrow> 's \<Rightarrow> string list \<times> error option"
  file_IsEmpty :: "string \<Rightarrow> 's \<Rightarrow> bool"
  file_Edit :: "string \<Rightarrow> 's \<Rightarrow> error option \<times> 's"
  os_RemoveAll :: "string \<Rightarrow> 's \<Rightarrow> error option \<times> 's"
  help_Call :: "string list \<Rightarrow> 's \<Rightarrow> error option \<times> 's"
  ReadDex :: "string \<Rightarrow> 's \<Rightarrow> Dex option \<times> error option"
  ParseDex :: "string \<Rightarrow> Dex option \<times> error option"
  Pretty :: "Dex \<Rightarrow> string"
  AsIncludes :: "Dex \<Rightarrow> string"
  Last :: "string \<Rightarrow> 's \<Rightarrow> DexEntry option"
  ID :: "DexEntry \<Rightarrow> string"
  MakeNode :: "string \<Rightarrow> 's \<Rightarrow> (DexEntry option \<times> error option) \<times> 's"
  WriteSample :: "string \<Rightarrow> DexEntry option \<Rightarrow> 's \<Rightarrow> error option \<times> 's"
  Edit :: "string \<Rightarrow> int \<Rightarrow> 's \<Rightarrow> error option \<times> 's"
  MakeDex :: "string \<Rightarrow> 's \<Rightarrow> error option \<times> 's"
  DexUpdate :: "string \<Rightarrow> DexEntry option \<Rightarrow> 's \<Rightarrow> error option \<times> 's"
  Publish :: "string \<Rightarrow> 's \<Rightarrow> error option \<times> 's"
  choose_prompt :: "Dex \<Rightarrow> 's \<Rightarrow> DexEntry option \<times> 's"
  rand_draw :: "'s \<Rightarrow> nat"

subsection \<open>Resolving the current keg (lines 216-245)\<close>

definition resolved :: "string \<Rightarrow> bool" where
  "resolved dir = (\<not> (dir = '''' \<or> dir = ''null''))"

definition current :: "'s sys \<Rightarrow> 's \<Rightarrow> error + Local" where
  "current sys s =
     (let name = Getenv sys ''KEG_CURRENT'' s;
          dir = fst (conf_C sys (''map.'' @ name) s)
      in if resolved dir then Inr \<lparr>Path = fs_Tilde2Home sys dir s, Name = name\<rparr>
         else
           let dir = fst (Getwd sys s)
           in if fs_Exists sys (filepath_Join sys [dir, ''keg'']) s
              then Inr \<lparr>Path = dir, Name = filepath_Base sys dir\<rparr>
              else
                let name = fst (vars_Get sys ''keg'' ''current'' s)
                in if name \<noteq> ''''
                   then
                     let dir = fst (conf_C sys (''map.'' @ name) s)
                     in if resolved dir
                        then Inr \<lparr>Path = fs_Tilde2Home sys dir s, Name = name\<rparr>
                        else Inl NoKegsFound
                   else Inl NoKegsFound)"

subsection \<open>The query methods of the dex that the claims speak about\<close>

text \<open>
  Modelled from the spec: \<^verbatim>\<open>WithTitleText\<close>, a method of \<^verbatim>\<open>Dex\<close> defined outside
  \<^verbatim>\<open>cmd.go\<close>.  The spec (4.3, FilterByTitleSubstring): "case-insensitive substring
  match against Title; empty text matches everything; preserves original ordering;
  returns an empty Dex (not an error) when nothing matches."  Case is folded on
  the letters A to Z.
\<close>

definition to_lower :: "char \<Rightarrow> char" where
  "to_lower c =
     (case map_of (zip ''ABCDEFGHIJKLMNOPQRSTUVWXYZ'' ''abcdefghijklmnopqrstuvwxyz'') c of
        Some l \<Rightarrow> l
      | None \<Rightarrow> c)"

fun starts_with :: "string \<Rightarrow> string \<Rightarrow> bool" where
  "starts_with hay [] = True"
| "starts_with [] (c # cs) = False"
| "starts_with (h # hs) (c # cs) = (h = c \<and> starts_with hs cs)"

fun has_substring :: "string \<Rightarrow> string \<Rightarrow> bool" where
  "has_substring [] needle = (needle = [])"
| "has_substring (h # hs) needle = (starts_with (h # hs) needle \<or> has_substring hs needle)"

definition WithTitleText :: "Dex \<Rightarrow> string \<Rightarrow> Dex" where
  "WithTitleText d txt =
     filter (\<lambda>e. has_substring (map to_lower (T e)) (map to_lower txt)) d"

text \<open>
  Modelled from the spec: \<^verbatim>\<open>ChooseWithTitleText\<close>, a method of \<^verbatim>\<open>Dex\<close> defined
  outside \<^verbatim>\<open>cmd.go\<close>.  The spec (4.3, ChooseByTitleSubstring): "same filter; if
  exactly one match, returns it; if multiple matches, the operation requires an
  interactive disambiguation collaborator (numbered-choice prompt) and returns the
  user's selection, or nil if the user aborts or no matches exist."  The prompt is
  the field \<open>choose_prompt\<close>.
\<close>

definition ChooseWithTitleText ::
  "'s sys \<Rightarrow> Dex \<Rightarrow> string \<Rightarrow> 's \<Rightarrow> DexEntry option \<times> 's" where
  "ChooseWithTitleText sys d txt s =
     (case WithTitleText d txt of
        [] \<Rightarrow> (None, s)
      | [e] \<Rightarrow> (Some e, s)
      | e # e' # es \<Rightarrow> choose_prompt sys (e # e' # es) s)"

text \<open>
  Modelled from the spec: \<^verbatim>\<open>Random\<close>, a method of \<^verbatim>\<open>Dex\<close> defined outside
  \<^verbatim>\<open>cmd.go\<close>.  The spec (4.3): "uniform-random selection over all entries; returns
  nil on an empty Dex."  The draw \<open>k\<close> comes from the random source.
\<close>

definition Random :: "Dex \<Rightarrow> nat \<Rightarrow> DexEntry option" where
  "Random d k = (if d = [] then None else Some (d ! (k mod length d)))"

subsection \<open>Plumbing\<close>

text \<open>Appending an event; calling a function that can change the outside and logging it.\<close>

definition emit :: "event \<Rightarrow> 's world \<Rightarrow> 's world" where
  "emit e w = w\<lparr>trace := trace w @ [e]\<rparr>"

definition call ::
  "('s \<Rightarrow> error option \<times> 's) \<Rightarrow> (error option \<Rightarrow> event) \<Rightarrow> 's world \<Rightarrow> error option \<times> 's world" where
  "call f ev w =
     (let (err, s') = f (outside w)
      in (err, \<lparr>outside = s', trace = trace w @ [ev err]\<rparr>))"

text \<open>\<^verbatim>\<open>if err != nil { return err }\<close> followed by the rest, and \<^verbatim>\<open>return f(...)\<close>.\<close>

definition andThen ::
  "error option \<times> 'w \<Rightarrow> ('w \<Rightarrow> result \<times> 'w) \<Rightarrow> result \<times> 'w" where
  "andThen r k = (case r of (Some e, w) \<Rightarrow> (Failure e, w) | (None, w) \<Rightarrow> k w)"

definition ret :: "error option \<times> 'w \<Rightarrow> result \<times> 'w" where
  "ret r = (case r of (Some e, w) \<Rightarrow> (Failure e, w) | (None, w) \<Rightarrow> (Success, w))"

text \<open>\<^verbatim>\<open>args[0]\<close>: Go checks the bound and panics outside it.\<close>

definition arg0 :: "string list \<Rightarrow> panic + string" where
  "arg0 args = (case args of [] \<Rightarrow> Inl IndexOutOfRange | a # _ \<Rightarrow> Inr a)"

text \<open>
  A method of \<^verbatim>\<open>Dex\<close> called through a \<^verbatim>\<open>*Dex\<close> needs the dex behind the pointer:
  through \<^verbatim>\<open>nil\<close> that is a nil dereference.  (The methods are outside \<^verbatim>\<open>cmd.go\<close>;
  the theorems below hold whatever such a call does, and only the two runs of
  \<^verbatim>\<open>dir\<close> and \<^verbatim>\<open>random\<close> on an unreadable index show this reading.)
\<close>

definition deref :: "Dex option \<Rightarrow> panic + Dex" where
  "deref dex = (case dex of None \<Rightarrow> Inl NilDereference | Some d \<Rightarrow> Inr d)"

subsection \<open>titles (lines 134-154)\<close>

definition titleCmd :: "'s sys \<Rightarrow> string list \<Rightarrow> 's world \<Rightarrow> result \<times> 's world" where
  "titleCmd sys args0 w =
     (let args = (if length args0 = 0 then args0 @ [''''] else args0)
      in case current sys (outside w) of
           Inl err \<Rightarrow> (Failure err, w)
         | Inr keg \<Rightarrow>
             (let str = strings_Join args '' ''
              in (case ReadDex sys (Path keg) (outside w) of
                    (dex, Some err) \<Rightarrow> (Failure err, w)
                  | (dex, None) \<Rightarrow>
                      (case deref dex of
                         Inl p \<Rightarrow> (Panicked p, w)
                       | Inr d \<Rightarrow>
                           if term_IsInteractive sys (outside w)
                           then (Success, emit (Paged (Pretty sys (WithTitleText d str))) w)
                           else (Success, emit (FmtPrint (AsIncludes sys (WithTitleText d str))) w)))))"

subsection \<open>dir (lines 164-177)\<close>

definition dirCmd :: "'s sys \<Rightarrow> string list \<Rightarrow> 's world \<Rightarrow> result \<times> 's world" where
  "dirCmd sys args w =
     (case current sys (outside w) of
        Inl err \<Rightarrow> (Failure err, w)
      | Inr keg \<Rightarrow>
          if length args > 0
          then
            (let (dex, _) = ReadDex sys (Path keg) (outside w)
             in (case deref dex of
                   Inl p \<Rightarrow> (Panicked p, w)
                 | Inr d \<Rightarrow>
                     (let (choice, s1) = ChooseWithTitleText sys d (strings_Join args '' '') (outside w);
                          w1 = w\<lparr>outside := s1\<rparr>
                      in (case choice of
                            None \<Rightarrow> (Panicked NilDereference, w1)
                          | Some c \<Rightarrow>
                              (Success, emit (TermPrint (filepath_Join sys [Path keg, Itoa (N c)])) w1)))))
          else (Success, emit (TermPrint (Path keg)) w))"

subsection \<open>delete (lines 187-213)\<close>

definition deleteCmd :: "'s sys \<Rightarrow> string list \<Rightarrow> 's world \<Rightarrow> result \<times> 's world" where
  "deleteCmd sys args w =
     (case current sys (outside w) of
        Inl err \<Rightarrow> (Failure err, w)
      | Inr keg \<Rightarrow>
          (case arg0 args of
             Inl p \<Rightarrow> (Panicked p, w)
           | Inr a \<Rightarrow>
               (let nid = (if a = ''last''
                           then (case Last sys (Path keg) (outside w) of
                                   Some n \<Rightarrow> ID sys n
                                 | None \<Rightarrow> a)
                           else a)
                in (case Atoi nid of
                      Inl _ \<Rightarrow> (Failure UsageError, w)
                    | Inr _ \<Rightarrow>
                        (let dir = filepath_Join sys [Path keg, nid];
                             w1 = emit (LogPrintln [''deleting'', dir]) w
                         in andThen (call (os_RemoveAll sys dir) (Removed dir) w1) (\<lambda>w2.
                            andThen (call (MakeDex sys (Path keg)) (DexMade (Path keg)) w2) (\<lambda>w3.
                            ret (call (Publish sys (Path keg)) (Published (Path keg)) w3))))))))"

subsection \<open>latest (lines 277-316)\<close>

text \<open>The count \<^verbatim>\<open>n\<close> (lines 279-293): the first argument, else the var \<^verbatim>\<open>default\<close>, else 1.\<close>

definition latest_count :: "'s sys \<Rightarrow> string list \<Rightarrow> 's \<Rightarrow> error + int" where
  "latest_count sys args s =
     (if length args > 0 then Atoi (hd args)
      else
        let (def, err) = vars_Get sys ''latest'' ''default'' s
        in if err = None \<and> def \<noteq> '''' then Atoi def else Inr 1)"

definition latestCmd :: "'s sys \<Rightarrow> string list \<Rightarrow> 's world \<Rightarrow> result \<times> 's world" where
  "latestCmd sys args w =
     (case latest_count sys args (outside w) of
        Inl err \<Rightarrow> (Failure err, w)
      | Inr n \<Rightarrow>
          (case current sys (outside w) of
             Inl err \<Rightarrow> (Failure err, w)
           | Inr keg \<Rightarrow>
               (let path = filepath_Join sys [Path keg, ''dex/latest.md'']
                in if \<not> fs_Exists sys path (outside w) then (Failure LatestMissing, w)
                   else
                     (case file_Head sys path n (outside w) of
                        (lines, Some err) \<Rightarrow> (Failure err, w)
                      | (lines, None) \<Rightarrow>
                          (let txt = strings_Join lines [CHR 0x0A];
                               w1 = emit (Parsed txt) w
                           in (case ParseDex sys txt of
                                 (dex, Some err) \<Rightarrow> (Success, w1)
                               | (dex, None) \<Rightarrow>
                                   (case deref dex of
                                      Inl p \<Rightarrow> (Panicked p, w1)
                                    | Inr d \<Rightarrow>
                                        if term_IsInteractive sys (outside w)
                                        then (Success, emit (FmtPrint (Pretty sys d)) w1)
                                        else (Success, emit (FmtPrint (AsIncludes sys d)) w1))))))))"

subsection \<open>edit (lines 375-423)\<close>

text \<open>
  Lines 386-405: the node id from the first argument.  \<open>Inr\<close> is the id; \<open>Inl\<close> is
  how the command ends when no id comes out.
\<close>

definition edit_id ::
  "'s sys \<Rightarrow> Local \<Rightarrow> string list \<Rightarrow> 's world \<Rightarrow> (result + string) \<times> 's world" where
  "edit_id sys keg args w =
     (case arg0 args of
        Inl p \<Rightarrow> (Inl (Panicked p), w)
      | Inr nid \<Rightarrow>
          if nid = ''last''
          then (case Last sys (Path keg) (outside w) of
                  Some n \<Rightarrow> (Inr (ID sys n), w)
                | None \<Rightarrow> (Inr nid, w))
          else
            (case Atoi nid of
               Inr _ \<Rightarrow> (Inr nid, w)
             | Inl _ \<Rightarrow>
                 (case ReadDex sys (Path keg) (outside w) of
                    (dex, Some err) \<Rightarrow> (Inl (Failure err), w)
                  | (dex, None) \<Rightarrow>
                      (let key = strings_Join args '' ''
                       in (case deref dex of
                             Inl p \<Rightarrow> (Inl (Panicked p), w)
                           | Inr d \<Rightarrow>
                               (let (choice, s1) = ChooseWithTitleText sys d key (outside w);
                                    w1 = w\<lparr>outside := s1\<rparr>
                                in (case choice of
                                      None \<Rightarrow> (Inl (Failure UnableToChoose), w1)
                                    | Some c \<Rightarrow> (Inr (Itoa (N c)), w1))))))))"

text \<open>Lines 406-422: edit the node's document, drop the node if it is left empty, reindex, publish.\<close>

definition edit_node ::
  "'s sys \<Rightarrow> Local \<Rightarrow> string \<Rightarrow> 's world \<Rightarrow> result \<times> 's world" where
  "edit_node sys keg nid w =
     (let path = filepath_Join sys [Path keg, nid, ''README.md'']
      in if \<not> fs_Exists sys path (outside w) then (Failure (NodeMissing nid (Name keg)), w)
         else
           andThen (call (file_Edit sys path) (FileEdited path) w) (\<lambda>w1.
           andThen (if file_IsEmpty sys path (outside w1)
                    then call (os_RemoveAll sys (filepath_Dir sys path))
                           (Removed (filepath_Dir sys path)) w1
                    else (None, w1)) (\<lambda>w2.
           andThen (call (MakeDex sys (Path keg)) (DexMade (Path keg)) w2) (\<lambda>w3.
           ret (call (Publish sys (Path keg)) (Published (Path keg)) w3)))))"

definition editCmd :: "'s sys \<Rightarrow> string list \<Rightarrow> 's world \<Rightarrow> result \<times> 's world" where
  "editCmd sys args w =
     (if length args = 0 then ret (call (help_Call sys args) (Helped args) w)
      else if \<not> term_IsInteractive sys (outside w) then titleCmd sys args w
      else
        case current sys (outside w) of
          Inl err \<Rightarrow> (Failure err, w)
        | Inr keg \<Rightarrow>
            (case edit_id sys keg args w of
               (Inl r, w') \<Rightarrow> (r, w')
             | (Inr nid, w') \<Rightarrow> edit_node sys keg nid w'))"

subsection \<open>create (lines 433-454)\<close>

definition createCmd :: "'s sys \<Rightarrow> string list \<Rightarrow> 's world \<Rightarrow> result \<times> 's world" where
  "createCmd sys args w =
     (case current sys (outside w) of
        Inl err \<Rightarrow> (Failure err, w)
      | Inr keg \<Rightarrow>
          (let ((entry, err), s1) = MakeNode sys (Path keg) (outside w);
               w1 = \<lparr>outside = s1, trace = trace w @ [NodeMade (Path keg) entry err]\<rparr>
           in (case err of
                 Some e \<Rightarrow> (Failure e, w1)
               | None \<Rightarrow>
                   andThen (if length args > 0 \<and> hd args = ''sample''
                            then call (WriteSample sys (Path keg) entry) (SampleWritten (Path keg)) w1
                            else (None, w1)) (\<lambda>w2.
                   (case entry of
                      None \<Rightarrow> (Panicked NilDereference, w2)
                    | Some en \<Rightarrow>
                        andThen (call (Edit sys (Path keg) (N en)) (NodeEdited (Path keg) (N en)) w2) (\<lambda>w3.
                        andThen (call (DexUpdate sys (Path keg) entry) (DexUpdated (Path keg)) w3) (\<lambda>w4.
                        ret (call (Publish sys (Path keg)) (Published (Path keg)) w4))))))))"

subsection \<open>random (lines 534-555)\<close>

definition randomCmd :: "'s sys \<Rightarrow> string list \<Rightarrow> 's world \<Rightarrow> result \<times> 's world" where
  "randomCmd sys args0 w =
     (let args = (if length args0 = 0 then args0 @ [''edit''] else args0)
      in case current sys (outside w) of
           Inl err \<Rightarrow> (Failure err, w)
         | Inr keg \<Rightarrow>
             (let (dex, err) = ReadDex sys (Path keg) (outside w)
              in (case deref dex of
                    Inl p \<Rightarrow> (Panicked p, w)
                  | Inr d \<Rightarrow>
                      (let r = Random d (rand_draw sys (outside w))
                       in (case arg0 args of
                         Inl p \<Rightarrow> (Panicked p, w)
                       | Inr mode \<Rightarrow>
                           if mode = ''id''
                           then (case r of
                                   None \<Rightarrow> (Panicked NilDereference, w)
                                 | Some e \<Rightarrow> (Success, emit (TermPrint (Itoa (N e))) w))
                           else if mode = ''title''
                           then (case r of
                                   None \<Rightarrow> (Panicked NilDereference, w)
                                 | Some e \<Rightarrow> (Success, emit (TermPrint (T e)) w))
                           else if mode = ''edit''
                           then (case r of
                                   None \<Rightarrow> (Panicked NilDereference, w)
                                 | Some e \<Rightarrow> editCmd sys [Itoa (N e)] w)
                           else if mode = ''dir''
                           then (case r of
                                   None \<Rightarrow> (Panicked NilDereference, w)
                                 | Some e \<Rightarrow>
                                     (Success, emit (TermPrint (filepath_Join sys [Itoa (N e)])) w))
                           else (Success, w))))))"

subsection \<open>A keg in memory\<close>

text \<open>
  A small outside world on which the commands can be run: the environment, the
  configuration and the vars as key-value lists, the paths that exist, the files of
  length zero, what \<^verbatim>\<open>ReadDex\<close> finds and what \<^verbatim>\<open>dex/latest.md\<close> holds, and what the
  user does: whether the editor leaves an empty document, the answer to a prompt
  and the next random draw.  The theorems about the commands hold for every \<open>sys\<close>;
  this one gives them concrete inputs.
\<close>

record disk =
  env_current :: string
  conf_map :: "(string \<times> string) list"
  var_map :: "(string \<times> string) list"
  cwd :: string
  paths :: "string list"
  empties :: "string list"
  tty :: bool
  index :: "Dex option \<times> error option"
  latest_lines :: "string list"
  saves_empty :: bool
  menu_pick :: "nat option"
  dice :: nat

definition base_name :: "string \<Rightarrow> string" where
  "base_name p = rev (takeWhile (\<lambda>c. c \<noteq> CHR ''/'') (rev p))"

definition dir_name :: "string \<Rightarrow> string" where
  "dir_name p = rev (tl (dropWhile (\<lambda>c. c \<noteq> CHR ''/'') (rev p)))"

definition render_line :: "DexEntry \<Rightarrow> string" where
  "render_line e = ''* ['' @ T e @ ''](../'' @ Itoa (N e) @ '')'' @ [CHR 0x0A]"

text \<open>The dex of the spec's scenario: nodes 3 "Alpha", 9 "Gamma", 7 "Beta", newest first.\<close>

definition scenario_dex :: Dex where
  "scenario_dex = [\<lparr>N = 3, T = ''Alpha''\<rparr>, \<lparr>N = 9, T = ''Gamma''\<rparr>, \<lparr>N = 7, T = ''Beta''\<rparr>]"

text \<open>
  The functions over that world.  Paths are joined with a slash; \<^verbatim>\<open>ParseDex\<close> gives
  one entry of the scenario per line of its text; the functions that rebuild and
  publish succeed and leave the state alone.
\<close>

definition plain :: "disk sys" where
  "plain =
     \<lparr>Getenv = (\<lambda>k s. if k = ''KEG_CURRENT'' then env_current s else ''''),
      Getwd = (\<lambda>s. (cwd s, None)),
      conf_C = (\<lambda>k s. case map_of (conf_map s) k of
                         Some v \<Rightarrow> (v, None)
                       | None \<Rightarrow> ('''', Some (Foreign ''no such key''))),
      vars_Get = (\<lambda>c k s. case map_of (var_map s) (c @ ''.'' @ k) of
                             Some v \<Rightarrow> (v, None)
                           | None \<Rightarrow> ('''', None)),
      fs_Exists = (\<lambda>p s. p \<in> set (paths s)),
      fs_Tilde2Home = (\<lambda>p s. p),
      filepath_Join = (\<lambda>ps. strings_Join ps ''/''),
      filepath_Base = base_name,
      filepath_Dir = dir_name,
      term_IsInteractive = tty,
      file_Head = (\<lambda>p n s. (take (nat n) (latest_lines s), None)),
      file_IsEmpty = (\<lambda>p s. p \<in> set (empties s)),
      file_Edit = (\<lambda>p s. (None, if saves_empty s then s\<lparr>empties := p # empties s\<rparr>
                                   else s\<lparr>empties := removeAll p (empties s)\<rparr>)),
      os_RemoveAll = (\<lambda>p s. (None, s\<lparr>paths := filter (\<lambda>q. q \<noteq> p \<and> \<not> starts_with q (p @ ''/''))
                                                   (paths s)\<rparr>)),
      help_Call = (\<lambda>a s. (None, s)),
      ReadDex = (\<lambda>p s. index s),
      ParseDex = (\<lambda>t. (Some (if t = '''' then []
                               else take (Suc (count_list t (CHR 0x0A))) scenario_dex), None)),
      Pretty = (\<lambda>d. concat (map (\<lambda>e. Itoa (N e) @ '' '' @ T e @ [CHR 0x0A]) d)),
      AsIncludes = (\<lambda>d. concat (map render_line d)),
      Last = (\<lambda>p s. case fst (index s) of Some (e # _) \<Rightarrow> Some e | _ \<Rightarrow> None),
      ID = (\<lambda>e. Itoa (N e)),
      MakeNode = (\<lambda>p s. ((Some \<lparr>N = int (length (paths s)), T = ''''\<rparr>, None), s)),
      WriteSample = (\<lambda>p e s. (None, s)),
      Edit = (\<lambda>p n s. (None, s)),
      MakeDex = (\<lambda>p s. (None, s)),
      DexUpdate = (\<lambda>p e s. (None, s)),
      Publish = (\<lambda>p s. (None, s)),
      choose_prompt = (\<lambda>d s. (case menu_pick s of
                                  None \<Rightarrow> None
                                | Some i \<Rightarrow> if i < length d then Some (d ! i) else None, s)),
      rand_draw = dice\<rparr>"

text \<open>
  The keg \<^verbatim>\<open>/k\<close> holding the scenario, found through the marker file in the
  working directory, on a terminal.
\<close>

definition scenario :: disk where
  "scenario =
     \<lparr>env_current = '''',
      conf_map = [],
      var_map = [],
      cwd = ''/k'',
      paths = [''/k/keg'', ''/k/dex/latest.md'',
               ''/k/3'', ''/k/3/README.md'', ''/k/9'', ''/k/9/README.md'',
               ''/k/7'', ''/k/7/README.md''],
      empties = [],
      tty = True,
      index = (Some scenario_dex, None),
      latest_lines = [''* [Alpha](../3)'', ''* [Gamma](../9)'', ''* [Beta](../7)''],
      saves_empty = False,
      menu_pick = None,
      dice = 0\<rparr>"

definition start :: "disk \<Rightarrow> disk world" where
  "start s = \<lparr>outside = s, trace = []\<rparr>"

text \<open>
  Three variations: the environment names a keg of the configuration (and the var
  another); a dex file no line of which parses; an index that cannot be read.
\<close>

definition by_env_disk :: disk where
  "by_env_disk =
     scenario\<lparr>env_current := ''work'',
              conf_map := [(''map.work'', ''/w''), (''map.home'', ''/h'')],
              var_map := [(''keg.current'', ''home'')]\<rparr>"

definition unparsable :: "disk sys" where
  "unparsable = plain\<lparr>ParseDex := (\<lambda>t. (None, Some (Foreign ''no dex entry found'')))\<rparr>"

definition unreadable :: disk where
  "unreadable = scenario\<lparr>index := (None, Some (Foreign ''open /k/dex/latest.md: permission denied''))\<rparr>"




text \<open>An event that rebuilds the index: a call of \<^verbatim>\<open>MakeDex\<close> or of \<^verbatim>\<open>DexUpdate\<close>.\<close>

fun is_rebuild :: "event \<Rightarrow> bool" where
  "is_rebuild (DexMade p r) = True"
| "is_rebuild (DexUpdated p r) = True"
| "is_rebuild e = False"

section \<open>Properties\<close>

subsection \<open>Plumbing lemmas\<close>

lemma andThen_simps [simp]:
  "andThen (None, w) k = k w"
  "andThen (Some e, w) k = (Failure e, w)"
  by (simp_all add: andThen_def)

lemma ret_simps [simp]:
  "ret (None, w) = (Success, w)"
  "ret (Some e, w) = (Failure e, w)"
  by (simp_all add: ret_def)

lemma call_eq:
  "f (outside w) = (r, s') \<Longrightarrow> call f ev w = (r, \<lparr>outside = s', trace = trace w @ [ev r]\<rparr>)"
  by (simp add: call_def)

lemma andThen_Success:
  "andThen r k = (Success, w') \<longleftrightarrow> (\<exists>w1. r = (None, w1) \<and> k w1 = (Success, w'))"
  by (cases r) (auto simp: andThen_def split: option.splits)

lemma ret_Success: "ret r = (Success, w') \<longleftrightarrow> r = (None, w')"
  by (cases r) (auto simp: ret_def split: option.splits)

lemma call_None:
  "call f ev w = (None, w1) \<longleftrightarrow>
     (\<exists>s'. f (outside w) = (None, s') \<and> w1 = \<lparr>outside = s', trace = trace w @ [ev None]\<rparr>)"
  by (auto simp: call_def split: prod.splits)

subsection \<open>Resolving the current keg\<close>

text \<open>
  C4.  \<^verbatim>\<open>current\<close> resolves the keg in a fixed order.  If \<^verbatim>\<open>KEG_CURRENT\<close>, looked up
  under \<^verbatim>\<open>map.\<close> in the configuration, gives a directory (neither empty nor
  \<^verbatim>\<open>null\<close>), that keg is returned whatever the working directory and the var say.
  Otherwise, if the working directory holds a file \<^verbatim>\<open>keg\<close>, the working directory
  is the keg whatever the var says.  Otherwise the var \<^verbatim>\<open>current\<close>, if set and
  mapped by the configuration, names the keg.  If none of the three resolves, the
  result is the error and no \<^verbatim>\<open>Local\<close>.
\<close>

theorem current_precedence:
  fixes sys :: "'s sys" and s :: 's
  shows
  "let name1 = Getenv sys ''KEG_CURRENT'' s;
       dir1 = fst (conf_C sys (''map.'' @ name1) s);
       wd = fst (Getwd sys s);
       name3 = fst (vars_Get sys ''keg'' ''current'' s);
       dir3 = fst (conf_C sys (''map.'' @ name3) s);
       by_env = resolved dir1;
       by_marker = fs_Exists sys (filepath_Join sys [wd, ''keg'']) s;
       by_var = (name3 \<noteq> '''' \<and> resolved dir3)
   in (by_env \<longrightarrow> current sys s = Inr \<lparr>Path = fs_Tilde2Home sys dir1 s, Name = name1\<rparr>) \<and>
      (\<not> by_env \<and> by_marker \<longrightarrow>
         current sys s = Inr \<lparr>Path = wd, Name = filepath_Base sys wd\<rparr>) \<and>
      (\<not> by_env \<and> \<not> by_marker \<and> by_var \<longrightarrow>
         current sys s = Inr \<lparr>Path = fs_Tilde2Home sys dir3 s, Name = name3\<rparr>) \<and>
      (\<not> by_env \<and> \<not> by_marker \<and> \<not> by_var \<longrightarrow> current sys s = Inl NoKegsFound)"
  by (simp add: current_def Let_def)

text \<open>
  The four cases on the keg in memory: the environment wins over the marker file and
  the var; the marker file wins over the var; the var is used last; nothing resolves.
\<close>

theorem current_precedence_witness:
  "current plain by_env_disk = Inr \<lparr>Path = ''/w'', Name = ''work''\<rparr> \<and>
   current plain (by_env_disk\<lparr>env_current := ''''\<rparr>) = Inr \<lparr>Path = ''/k'', Name = ''k''\<rparr> \<and>
   current plain (by_env_disk\<lparr>env_current := '''', paths := []\<rparr>) =
     Inr \<lparr>Path = ''/h'', Name = ''home''\<rparr> \<and>
   current plain (scenario\<lparr>paths := []\<rparr>) = Inl NoKegsFound"
proof -
  have a: "current plain by_env_disk = Inr \<lparr>Path = ''/w'', Name = ''work''\<rparr>"
    using current_precedence [of plain by_env_disk]
    by (simp add: Let_def plain_def by_env_disk_def scenario_def resolved_def)
  have b: "current plain (by_env_disk\<lparr>env_current := ''''\<rparr>) = Inr \<lparr>Path = ''/k'', Name = ''k''\<rparr>"
    using current_precedence [of plain "by_env_disk\<lparr>env_current := ''''\<rparr>"]
    by (simp add: Let_def plain_def by_env_disk_def scenario_def resolved_def base_name_def)
  have c: "current plain (by_env_disk\<lparr>env_current := '''', paths := []\<rparr>) =
             Inr \<lparr>Path = ''/h'', Name = ''home''\<rparr>"
    using current_precedence [of plain "by_env_disk\<lparr>env_current := '''', paths := []\<rparr>"]
    by (simp add: Let_def plain_def by_env_disk_def scenario_def resolved_def)
  have d: "current plain (scenario\<lparr>paths := []\<rparr>) = Inl NoKegsFound"
    using current_precedence [of plain "scenario\<lparr>paths := []\<rparr>"]
    by (simp add: Let_def plain_def scenario_def resolved_def)
  from a b c d show ?thesis by simp
qed

lemma current_scenario: "current plain scenario = Inr \<lparr>Path = ''/k'', Name = ''k''\<rparr>"
  by (simp add: current_def plain_def scenario_def resolved_def base_name_def)

subsection \<open>delete\<close>

text \<open>
  C10.  A \<^verbatim>\<open>delete\<close> in a resolved keg whose first argument \<^verbatim>\<open>strconv.Atoi\<close> rejects,
  and which is not \<^verbatim>\<open>last\<close> with \<^verbatim>\<open>Last\<close> finding a node, returns the usage error
  and leaves the world as it found it: the outside state is unchanged and the trace
  has no new event, so nothing was removed, no index rebuilt, nothing published.
  (When no keg resolves, line 190 returns the error of \<^verbatim>\<open>current\<close> before the
  argument is looked at; the world is unchanged then as well.)
\<close>

theorem delete_usage_error:
  assumes "args = a # rest"
      and "isl (Atoi a)"
      and "\<forall>keg. current sys (outside w) = Inr keg \<longrightarrow>
             \<not> (a = ''last'' \<and> Last sys (Path keg) (outside w) \<noteq> None)"
  shows "deleteCmd sys args w =
           (case current sys (outside w) of
              Inl err \<Rightarrow> (Failure err, w)
            | Inr keg \<Rightarrow> (Failure UsageError, w))"
  using assms
  by (auto simp: deleteCmd_def arg0_def isl_def split: sum.splits option.splits)

theorem delete_usage_error_witness:
  "deleteCmd plain [''Beta''] (start scenario) = (Failure UsageError, start scenario) \<and>
   deleteCmd plain [''last''] (start (scenario\<lparr>index := (Some [], None)\<rparr>)) =
     (Failure UsageError, start (scenario\<lparr>index := (Some [], None)\<rparr>))"
proof -
  have cur: "current plain (scenario\<lparr>index := (Some [], None)\<rparr>) = Inr \<lparr>Path = ''/k'', Name = ''k''\<rparr>"
    by (simp add: current_def plain_def scenario_def resolved_def base_name_def)
  have a: "deleteCmd plain [''Beta''] (start scenario) = (Failure UsageError, start scenario)"
    using delete_usage_error [of "[''Beta'']" "''Beta''" "[]" plain "start scenario"]
    by (simp add: Atoi_def digit_val_def current_scenario start_def)
  have b: "deleteCmd plain [''last''] (start (scenario\<lparr>index := (Some [], None)\<rparr>)) =
             (Failure UsageError, start (scenario\<lparr>index := (Some [], None)\<rparr>))"
    using delete_usage_error [of "[''last'']" "''last''" "[]" plain
                                 "start (scenario\<lparr>index := (Some [], None)\<rparr>)"]
    by (simp add: Atoi_def digit_val_def cur start_def) (simp add: plain_def)
  from a b show ?thesis by simp
qed

subsection \<open>latest\<close>

text \<open>
  C6.  Once the count is read and the keg resolved, \<^verbatim>\<open>latest\<close> on a keg without
  \<^verbatim>\<open>dex/latest.md\<close> returns the error "dex/latest.md file does not exist" and leaves
  the world as it found it: no text was handed to \<^verbatim>\<open>ParseDex\<close> and nothing was
  printed.
\<close>

theorem latest_missing_file:
  assumes "latest_count sys args (outside w) = Inr n"
      and "current sys (outside w) = Inr keg"
      and "\<not> fs_Exists sys (filepath_Join sys [Path keg, ''dex/latest.md'']) (outside w)"
  shows "latestCmd sys args w = (Failure LatestMissing, w)"
  using assms by (simp add: latestCmd_def)

theorem latest_missing_file_witness:
  "latestCmd plain [''2''] (start (scenario\<lparr>paths := [''/k/keg'']\<rparr>)) =
     (Failure LatestMissing, start (scenario\<lparr>paths := [''/k/keg'']\<rparr>))"
proof -
  have cur: "current plain (scenario\<lparr>paths := [''/k/keg'']\<rparr>) = Inr \<lparr>Path = ''/k'', Name = ''k''\<rparr>"
    by (simp add: current_def plain_def scenario_def resolved_def base_name_def)
  have cnt: "latest_count plain [''2''] (scenario\<lparr>paths := [''/k/keg'']\<rparr>) = Inr 2"
    by (simp add: latest_count_def Atoi_def digit_val_def)
  have ex: "\<not> fs_Exists plain (filepath_Join plain [''/k'', ''dex/latest.md''])
               (scenario\<lparr>paths := [''/k/keg'']\<rparr>)"
    by (simp add: plain_def)
  show ?thesis
    using latest_missing_file [of plain "[''2'']" "start (scenario\<lparr>paths := [''/k/keg'']\<rparr>)" 2
                                  "\<lparr>Path = ''/k'', Name = ''k''\<rparr>"] cur cnt ex
    by (simp add: start_def)
qed

text \<open>
  C3.  When \<^verbatim>\<open>latest\<close> has read the first \<open>n\<close> lines of \<^verbatim>\<open>dex/latest.md\<close> and
  \<^verbatim>\<open>ParseDex\<close> returns an error on them, the command returns \<^verbatim>\<open>nil\<close>; the one thing
  it has done is the parse: nothing is printed and the error is not reported.
\<close>

theorem latest_parse_error_is_silent:
  assumes "latest_count sys args (outside w) = Inr n"
      and "current sys (outside w) = Inr keg"
      and "path = filepath_Join sys [Path keg, ''dex/latest.md'']"
      and "fs_Exists sys path (outside w)"
      and "file_Head sys path n (outside w) = (lines, None)"
      and "ParseDex sys (strings_Join lines [CHR 0x0A]) = (dex, Some err)"
  shows "latestCmd sys args w = (Success, emit (Parsed (strings_Join lines [CHR 0x0A])) w)"
  using assms by (simp add: latestCmd_def)

theorem latest_parse_error_is_silent_witness:
  "latestCmd unparsable [''2''] (start scenario) =
     (Success, \<lparr>outside = scenario, trace = [Parsed ''* [Alpha](../3)\<newline>* [Gamma](../9)'']\<rparr>)"
proof -
  have cur: "current unparsable scenario = Inr \<lparr>Path = ''/k'', Name = ''k''\<rparr>"
    by (simp add: current_def unparsable_def plain_def scenario_def resolved_def base_name_def)
  have cnt: "latest_count unparsable [''2''] scenario = Inr 2"
    by (simp add: latest_count_def Atoi_def digit_val_def)
  have ex: "fs_Exists unparsable ''/k/dex/latest.md'' scenario"
    by (simp add: unparsable_def plain_def scenario_def)
  have hd: "file_Head unparsable ''/k/dex/latest.md'' 2 scenario =
              ([''* [Alpha](../3)'', ''* [Gamma](../9)''], None)"
    by (simp add: unparsable_def plain_def scenario_def numeral_2_eq_2)
  have pd: "ParseDex unparsable (strings_Join [''* [Alpha](../3)'', ''* [Gamma](../9)''] [CHR 0x0A]) =
              (None, Some (Foreign ''no dex entry found''))"
    by (simp add: unparsable_def plain_def)
  have pth: "''/k/dex/latest.md'' = filepath_Join unparsable [Path \<lparr>Path = ''/k'', Name = ''k''\<rparr>, ''dex/latest.md'']"
    by (simp add: unparsable_def plain_def)
  show ?thesis
    using latest_parse_error_is_silent [of unparsable "[''2'']" "start scenario" 2
            "\<lparr>Path = ''/k'', Name = ''k''\<rparr>" "''/k/dex/latest.md''"
            "[''* [Alpha](../3)'', ''* [Gamma](../9)'']" None "Foreign ''no dex entry found''"]
          cur cnt ex hd pd pth
    by (simp add: start_def emit_def)
qed

subsection \<open>titles and latest: one dex, two renderings\<close>

lemma has_substring_empty: "has_substring hay []"
  by (cases hay) simp_all

lemma WithTitleText_empty: "WithTitleText d '''' = d"
  by (simp add: WithTitleText_def has_substring_empty)

text \<open>
  C9.  In a resolved keg, for every dex \<open>d\<close> that \<^verbatim>\<open>ReadDex\<close> loads, \<^verbatim>\<open>titles\<close> pages
  \<^verbatim>\<open>Pretty\<close> of the filtered dex when standard output is interactive and prints
  \<^verbatim>\<open>AsIncludes\<close> of the same filtered dex when it is not: the entries handed to the
  renderer, and their order, do not depend on the choice.  With no arguments the
  filter text is the empty string and the filtered dex is \<open>d\<close> itself.  Likewise
  \<^verbatim>\<open>latest\<close> prints \<^verbatim>\<open>Pretty\<close> or \<^verbatim>\<open>AsIncludes\<close> of the one dex that \<^verbatim>\<open>ParseDex\<close>
  made of the first lines of \<^verbatim>\<open>dex/latest.md\<close>.
\<close>

theorem titles_latest_render_same_dex:
  assumes "current sys (outside w) = Inr keg"
  shows "(ReadDex sys (Path keg) (outside w) = (Some d, None) \<longrightarrow>
            (let shown = WithTitleText d (strings_Join (if args = [] then [''''] else args) '' '')
             in titleCmd sys args w =
                  (Success, emit (if term_IsInteractive sys (outside w)
                                  then Paged (Pretty sys shown)
                                  else FmtPrint (AsIncludes sys shown)) w) \<and>
                (args = [] \<longrightarrow> shown = d))) \<and>
         (latest_count sys args (outside w) = Inr n \<and>
          fs_Exists sys (filepath_Join sys [Path keg, ''dex/latest.md'']) (outside w) \<and>
          file_Head sys (filepath_Join sys [Path keg, ''dex/latest.md'']) n (outside w) = (lines, None) \<and>
          ParseDex sys (strings_Join lines [CHR 0x0A]) = (Some d', None) \<longrightarrow>
            latestCmd sys args w =
              (Success, emit (FmtPrint (if term_IsInteractive sys (outside w)
                                        then Pretty sys d'
                                        else AsIncludes sys d'))
                          (emit (Parsed (strings_Join lines [CHR 0x0A])) w)))"
  using assms
  by (auto simp: titleCmd_def latestCmd_def deref_def Let_def WithTitleText_empty)

text \<open>
  On the keg in memory: \<^verbatim>\<open>titles\<close> without arguments shows the three entries in the
  order of the dex, paged on a terminal and as include lines through a pipe; and
  \<^verbatim>\<open>latest 2\<close> prints what \<^verbatim>\<open>ParseDex\<close> gave in either rendering.
\<close>

theorem titles_latest_render_same_dex_witness:
  "titleCmd plain [] (start scenario) =
     (Success, \<lparr>outside = scenario,
                trace = [Paged ''3 Alpha\<newline>9 Gamma\<newline>7 Beta\<newline>'']\<rparr>) \<and>
   titleCmd plain [] (start (scenario\<lparr>tty := False\<rparr>)) =
     (Success, \<lparr>outside = scenario\<lparr>tty := False\<rparr>,
                trace = [FmtPrint ''* [Alpha](../3)\<newline>* [Gamma](../9)\<newline>* [Beta](../7)\<newline>'']\<rparr>) \<and>
   latestCmd plain [''2''] (start scenario) =
     (Success, \<lparr>outside = scenario,
                trace = [Parsed ''* [Alpha](../3)\<newline>* [Gamma](../9)'',
                         FmtPrint ''3 Alpha\<newline>9 Gamma\<newline>'']\<rparr>)"
proof -
  let ?dex = "scenario_dex"
  let ?keg = "\<lparr>Path = ''/k'', Name = ''k''\<rparr>"
  let ?piped = "scenario\<lparr>tty := False\<rparr>"
  have cur2: "current plain ?piped = Inr ?keg"
    by (simp add: current_def plain_def scenario_def resolved_def base_name_def)
  have rd: "ReadDex plain (Path ?keg) scenario = (Some ?dex, None)"
           "ReadDex plain (Path ?keg) ?piped = (Some ?dex, None)"
    by (simp_all add: plain_def scenario_def)
  have render:
    "Pretty plain ?dex = ''3 Alpha\<newline>9 Gamma\<newline>7 Beta\<newline>''"
    "AsIncludes plain ?dex = ''* [Alpha](../3)\<newline>* [Gamma](../9)\<newline>* [Beta](../7)\<newline>''"
    "Pretty plain (take 2 ?dex) = ''3 Alpha\<newline>9 Gamma\<newline>''"
    by (simp_all add: plain_def scenario_dex_def render_line_def Itoa_def digits.simps)
  have tty: "term_IsInteractive plain scenario" "\<not> term_IsInteractive plain ?piped"
    by (simp_all add: plain_def scenario_def)
  have a: "titleCmd plain [] (start scenario) =
             (Success, \<lparr>outside = scenario,
                        trace = [Paged ''3 Alpha\<newline>9 Gamma\<newline>7 Beta\<newline>'']\<rparr>)"
    using titles_latest_render_same_dex [of plain "start scenario" ?keg ?dex "[]"]
          current_scenario rd render tty
    by (simp add: start_def emit_def Let_def)
  have b: "titleCmd plain [] (start ?piped) =
             (Success, \<lparr>outside = ?piped,
                        trace = [FmtPrint ''* [Alpha](../3)\<newline>* [Gamma](../9)\<newline>* [Beta](../7)\<newline>'']\<rparr>)"
    using titles_latest_render_same_dex [of plain "start ?piped" ?keg ?dex "[]"]
          cur2 rd render tty
    by (simp add: start_def emit_def Let_def)
  have cnt: "latest_count plain [''2''] scenario = Inr 2"
    by (simp add: latest_count_def Atoi_def digit_val_def)
  have ex: "fs_Exists plain (filepath_Join plain [Path ?keg, ''dex/latest.md'']) scenario"
    by (simp add: plain_def scenario_def)
  have hd: "file_Head plain (filepath_Join plain [Path ?keg, ''dex/latest.md'']) 2 scenario =
              ([''* [Alpha](../3)'', ''* [Gamma](../9)''], None)"
    by (simp add: plain_def scenario_def numeral_2_eq_2)
  have pd: "ParseDex plain (strings_Join [''* [Alpha](../3)'', ''* [Gamma](../9)''] [CHR 0x0A]) =
              (Some (take 2 ?dex), None)"
    by (simp add: plain_def numeral_2_eq_2)
  have c: "latestCmd plain [''2''] (start scenario) =
             (Success, \<lparr>outside = scenario,
                        trace = [Parsed ''* [Alpha](../3)\<newline>* [Gamma](../9)'',
                         FmtPrint ''3 Alpha\<newline>9 Gamma\<newline>'']\<rparr>)"
    using titles_latest_render_same_dex [of plain "start scenario" ?keg _ "[''2'']" 2
            "[''* [Alpha](../3)'', ''* [Gamma](../9)'']" "take 2 ?dex"]
          current_scenario cnt ex hd pd render tty
    by (simp add: start_def emit_def)
  from a b c show ?thesis by simp
qed

subsection \<open>edit: finding the node id\<close>

lemma edit_id_trace: "edit_id sys keg args w = (r, w0) \<Longrightarrow> trace w0 = trace w"
  by (auto simp: edit_id_def Let_def split: sum.splits option.splits prod.splits if_splits)

lemma edit_id_not_Success: "edit_id sys keg args w \<noteq> (Inl Success, w0)"
  by (auto simp: edit_id_def Let_def split: sum.splits option.splits prod.splits if_splits)

subsection \<open>Mutating commands: change, rebuild, publish\<close>

lemma delete_success_trace:
  assumes "deleteCmd sys args w = (Success, w')"
  shows "\<exists>keg dir. current sys (outside w) = Inr keg \<and>
           trace w' = trace w @ [LogPrintln [''deleting'', dir], Removed dir None,
                                 DexMade (Path keg) None, Published (Path keg) None]"
  using assms
  by (auto simp: deleteCmd_def Let_def andThen_Success ret_Success call_None emit_def
           split: sum.splits)

lemma create_success_trace:
  assumes "createCmd sys args w = (Success, w')"
  shows "\<exists>keg en sample. current sys (outside w) = Inr keg \<and>
           (sample = [] \<or> sample = [SampleWritten (Path keg) None]) \<and>
           trace w' = trace w @ [NodeMade (Path keg) (Some en) None] @ sample @
                        [NodeEdited (Path keg) (N en) None, DexUpdated (Path keg) None,
                         Published (Path keg) None]"
  using assms
  by (auto simp: createCmd_def Let_def andThen_Success ret_Success call_None
           split: sum.splits prod.splits option.splits if_splits)

lemma edit_node_success_trace:
  assumes "edit_node sys keg nid w0 = (Success, w')"
  shows "\<exists>path removed.
           (removed = [] \<or> removed = [Removed (filepath_Dir sys path) None]) \<and>
           trace w' = trace w0 @ [FileEdited path None] @ removed @
                        [DexMade (Path keg) None, Published (Path keg) None]"
  using assms
  by (auto simp: edit_node_def Let_def andThen_Success ret_Success call_None
           split: if_splits)

lemma edit_success_trace:
  assumes "editCmd sys args w = (Success, w')"
      and "args \<noteq> []" and "term_IsInteractive sys (outside w)"
  shows "\<exists>keg path removed. current sys (outside w) = Inr keg \<and>
           (removed = [] \<or> removed = [Removed (filepath_Dir sys path) None]) \<and>
           trace w' = trace w @ [FileEdited path None] @ removed @
                        [DexMade (Path keg) None, Published (Path keg) None]"
proof -
  from assms obtain keg where cur: "current sys (outside w) = Inr keg"
    by (auto simp: editCmd_def split: sum.splits)
  obtain r w0 where eid: "edit_id sys keg args w = (r, w0)"
    by (cases "edit_id sys keg args w") auto
  have tr: "trace w0 = trace w"
    using eid by (rule edit_id_trace)
  show ?thesis
  proof (cases r)
    case (Inl res)
    with assms cur eid have "res = Success" and "w0 = w'"
      by (auto simp: editCmd_def)
    with Inl eid edit_id_not_Success [of sys keg args w w0] show ?thesis
      by simp
  next
    case (Inr nid)
    with assms cur eid have "edit_node sys keg nid w0 = (Success, w')"
      by (auto simp: editCmd_def)
    from edit_node_success_trace [OF this] cur tr show ?thesis
      by auto
  qed
qed

text \<open>
  C1, as amended.  A \<^verbatim>\<open>delete\<close> or a \<^verbatim>\<open>create\<close> that returns \<^verbatim>\<open>nil\<close>, and an
  \<^verbatim>\<open>edit\<close> with arguments on an interactive terminal that returns \<^verbatim>\<open>nil\<close>, has done
  exactly this, in this order, each step returning \<^verbatim>\<open>nil\<close>: changed the node store
  (\<^verbatim>\<open>os.RemoveAll\<close> of the node; \<^verbatim>\<open>MakeNode\<close>, the sample if asked for, and \<^verbatim>\<open>Edit\<close>;
  the editor on the document, and \<^verbatim>\<open>os.RemoveAll\<close> if it was left empty), rebuilt
  the index (\<^verbatim>\<open>MakeDex\<close>, for \<^verbatim>\<open>create\<close> \<^verbatim>\<open>DexUpdate\<close>), and last called \<^verbatim>\<open>Publish\<close>.
  (An \<^verbatim>\<open>edit\<close> without arguments is the help, and one whose output is not a
  terminal is \<^verbatim>\<open>titles\<close>: neither changes a node nor rebuilds the index.)
\<close>

theorem mutation_rebuild_publish_in_order:
  "(deleteCmd sys args w = (Success, w') \<longrightarrow>
      (\<exists>keg dir. current sys (outside w) = Inr keg \<and>
         trace w' = trace w @ [LogPrintln [''deleting'', dir], Removed dir None,
                               DexMade (Path keg) None, Published (Path keg) None])) \<and>
   (createCmd sys args w = (Success, w') \<longrightarrow>
      (\<exists>keg en sample. current sys (outside w) = Inr keg \<and>
         (sample = [] \<or> sample = [SampleWritten (Path keg) None]) \<and>
         trace w' = trace w @ [NodeMade (Path keg) (Some en) None] @ sample @
                      [NodeEdited (Path keg) (N en) None, DexUpdated (Path keg) None,
                       Published (Path keg) None])) \<and>
   (editCmd sys args w = (Success, w') \<and> args \<noteq> [] \<and> term_IsInteractive sys (outside w) \<longrightarrow>
      (\<exists>keg path removed. current sys (outside w) = Inr keg \<and>
         (removed = [] \<or> removed = [Removed (filepath_Dir sys path) None]) \<and>
         trace w' = trace w @ [FileEdited path None] @ removed @
                      [DexMade (Path keg) None, Published (Path keg) None]))"
  using delete_success_trace [of sys args w w'] create_success_trace [of sys args w w']
        edit_success_trace [of sys args w w']
  by blast

text \<open>The keg in memory, field by field, for running the commands on it.\<close>

lemma plain_sel [simp]:
  "Getenv plain k s = (if k = ''KEG_CURRENT'' then env_current s else '''')"
  "Getwd plain s = (cwd s, None)"
  "conf_C plain k s = (case map_of (conf_map s) k of
                         Some v \<Rightarrow> (v, None)
                       | None \<Rightarrow> ('''', Some (Foreign ''no such key'')))"
  "vars_Get plain c k s = (case map_of (var_map s) (c @ ''.'' @ k) of
                             Some v \<Rightarrow> (v, None)
                           | None \<Rightarrow> ('''', None))"
  "file_Head plain p n s = (take (nat n) (latest_lines s), None)"
  "ParseDex plain t = (Some (if t = '''' then []
                             else take (Suc (count_list t (CHR 0x0A))) scenario_dex), None)"
  "fs_Exists plain p s = (p \<in> set (paths s))"
  "fs_Tilde2Home plain p s = p"
  "filepath_Join plain ps = strings_Join ps ''/''"
  "filepath_Base plain = base_name"
  "filepath_Dir plain = dir_name"
  "term_IsInteractive plain = tty"
  "file_IsEmpty plain p s = (p \<in> set (empties s))"
  "file_Edit plain p s = (None, if saves_empty s then s\<lparr>empties := p # empties s\<rparr>
                                  else s\<lparr>empties := removeAll p (empties s)\<rparr>)"
  "os_RemoveAll plain p s =
     (None, s\<lparr>paths := filter (\<lambda>q. q \<noteq> p \<and> \<not> starts_with q (p @ ''/'')) (paths s)\<rparr>)"
  "help_Call plain a s = (None, s)"
  "ReadDex plain p s = index s"
  "Pretty plain d = concat (map (\<lambda>e. Itoa (N e) @ '' '' @ T e @ [CHR 0x0A]) d)"
  "AsIncludes plain d = concat (map render_line d)"
  "Last plain p s = (case fst (index s) of Some (e # _) \<Rightarrow> Some e | _ \<Rightarrow> None)"
  "ID plain e = Itoa (N e)"
  "MakeNode plain p s = ((Some \<lparr>N = int (length (paths s)), T = ''''\<rparr>, None), s)"
  "WriteSample plain p en s = (None, s)"
  "Edit plain p n s = (None, s)"
  "MakeDex plain p s = (None, s)"
  "DexUpdate plain p en s = (None, s)"
  "Publish plain p s = (None, s)"
  "choose_prompt plain d s =
     (case menu_pick s of None \<Rightarrow> None | Some i \<Rightarrow> if i < length d then Some (d ! i) else None, s)"
  "rand_draw plain = dice"
  by (simp_all add: plain_def)

lemma scenario_sel [simp]:
  "env_current scenario = ''''"
  "conf_map scenario = []"
  "var_map scenario = []"
  "latest_lines scenario = [''* [Alpha](../3)'', ''* [Gamma](../9)'', ''* [Beta](../7)'']"
  "cwd scenario = ''/k''"
  "paths scenario = [''/k/keg'', ''/k/dex/latest.md'', ''/k/3'', ''/k/3/README.md'',
                     ''/k/9'', ''/k/9/README.md'', ''/k/7'', ''/k/7/README.md'']"
  "empties scenario = []"
  "tty scenario = True"
  "index scenario = (Some scenario_dex, None)"
  "saves_empty scenario = False"
  "menu_pick scenario = None"
  "dice scenario = 0"
  by (simp_all add: scenario_def)

lemma current_plain_marker:
  "env_current s = '''' \<Longrightarrow> conf_map s = [] \<Longrightarrow> cwd s = ''/k'' \<Longrightarrow> ''/k/keg'' \<in> set (paths s) \<Longrightarrow>
   current plain s = Inr \<lparr>Path = ''/k'', Name = ''k''\<rparr>"
  by (simp add: current_def resolved_def base_name_def)

lemma Itoa_small [simp]: "Itoa 3 = ''3''" "Itoa 8 = ''8''" "Itoa 9 = ''9''" "Itoa 7 = ''7''"
  by (simp_all add: Itoa_def digits.simps)

text \<open>
  On the keg in memory: \<^verbatim>\<open>delete 9\<close>, \<^verbatim>\<open>create sample\<close> and \<^verbatim>\<open>edit alpha\<close> succeed,
  and each trace is the change, the rebuild, the publication.
\<close>

theorem mutation_rebuild_publish_in_order_witness:
  "fst (deleteCmd plain [''9''] (start scenario)) = Success \<and>
   (\<exists>keg dir. current plain scenario = Inr keg \<and>
      trace (snd (deleteCmd plain [''9''] (start scenario))) =
        [LogPrintln [''deleting'', dir], Removed dir None,
         DexMade (Path keg) None, Published (Path keg) None]) \<and>
   fst (createCmd plain [''sample''] (start scenario)) = Success \<and>
   (\<exists>keg en sample. current plain scenario = Inr keg \<and>
      (sample = [] \<or> sample = [SampleWritten (Path keg) None]) \<and>
      trace (snd (createCmd plain [''sample''] (start scenario))) =
        [NodeMade (Path keg) (Some en) None] @ sample @
        [NodeEdited (Path keg) (N en) None, DexUpdated (Path keg) None,
         Published (Path keg) None]) \<and>
   fst (editCmd plain [''alpha''] (start scenario)) = Success \<and>
   (\<exists>keg path removed. current plain scenario = Inr keg \<and>
      (removed = [] \<or> removed = [Removed (filepath_Dir plain path) None]) \<and>
      trace (snd (editCmd plain [''alpha''] (start scenario))) =
        [FileEdited path None] @ removed @
        [DexMade (Path keg) None, Published (Path keg) None])"
proof -
  have cur: "current plain scenario = Inr \<lparr>Path = ''/k'', Name = ''k''\<rparr>"
    by (rule current_plain_marker) simp_all
  have d: "fst (deleteCmd plain [''9''] (start scenario)) = Success"
    by (simp add: deleteCmd_def start_def cur arg0_def Atoi_def digit_val_def call_def emit_def Let_def)
  have c: "fst (createCmd plain [''sample''] (start scenario)) = Success"
    by (simp add: createCmd_def start_def cur call_def Let_def)
  have choose: "ChooseWithTitleText plain scenario_dex ''alpha'' scenario =
                  (Some \<lparr>N = 3, T = ''Alpha''\<rparr>, scenario)"
    by (simp add: ChooseWithTitleText_def WithTitleText_def scenario_dex_def to_lower_def)
  have e: "fst (editCmd plain [''alpha''] (start scenario)) = Success"
    by (simp add: editCmd_def edit_id_def edit_node_def start_def cur arg0_def Atoi_def
                  digit_val_def deref_def choose call_def Let_def)
  have tty: "args \<noteq> [] \<and> term_IsInteractive plain (outside (start scenario))"
    if "args = [''alpha'']" for args :: "string list"
    using that by (simp add: start_def)
  note main = mutation_rebuild_publish_in_order
  from d main [of plain "[''9'']" "start scenario" "snd (deleteCmd plain [''9''] (start scenario))"]
  have d': "\<exists>keg dir. current plain scenario = Inr keg \<and>
      trace (snd (deleteCmd plain [''9''] (start scenario))) =
        [LogPrintln [''deleting'', dir], Removed dir None,
         DexMade (Path keg) None, Published (Path keg) None]"
    by (simp add: start_def prod_eq_iff)
  from c main [of plain "[''sample'']" "start scenario" "snd (createCmd plain [''sample''] (start scenario))"]
  have c': "\<exists>keg en sample. current plain scenario = Inr keg \<and>
      (sample = [] \<or> sample = [SampleWritten (Path keg) None]) \<and>
      trace (snd (createCmd plain [''sample''] (start scenario))) =
        [NodeMade (Path keg) (Some en) None] @ sample @
        [NodeEdited (Path keg) (N en) None, DexUpdated (Path keg) None,
         Published (Path keg) None]"
    by (simp add: start_def prod_eq_iff)
  from e tty main [of plain "[''alpha'']" "start scenario" "snd (editCmd plain [''alpha''] (start scenario))"]
  have e': "\<exists>keg path removed. current plain scenario = Inr keg \<and>
      (removed = [] \<or> removed = [Removed (filepath_Dir plain path) None]) \<and>
      trace (snd (editCmd plain [''alpha''] (start scenario))) =
        [FileEdited path None] @ removed @
        [DexMade (Path keg) None, Published (Path keg) None]"
    by (simp add: start_def prod_eq_iff)
  from d d' c c' e e' show ?thesis by blast
qed

text \<open>
  C1 as stated fails: \<^verbatim>\<open>edit alpha\<close> with standard output in a pipe is handed to
  \<^verbatim>\<open>titles\<close> (line 380) and returns \<^verbatim>\<open>nil\<close>; all it has done is print the matching
  entry.  \<^verbatim>\<open>edit\<close> is one of the mutating commands, it has succeeded, and the index
  was not rebuilt.  The same holds for \<^verbatim>\<open>edit\<close> without arguments, which is the help
  (line 377).
\<close>

theorem edit_through_pipe_succeeds_without_rebuild:
  "fst (editCmd plain [''alpha''] (start (scenario\<lparr>tty := False\<rparr>))) = Success \<and>
   trace (snd (editCmd plain [''alpha''] (start (scenario\<lparr>tty := False\<rparr>)))) =
     [FmtPrint ''* [Alpha](../3)\<newline>''] \<and>
   \<not> list_ex is_rebuild (trace (snd (editCmd plain [''alpha''] (start (scenario\<lparr>tty := False\<rparr>))))) \<and>
   fst (editCmd plain [] (start scenario)) = Success \<and>
   trace (snd (editCmd plain [] (start scenario))) = [Helped [] None]"
proof -
  have cur: "current plain (scenario\<lparr>tty := False\<rparr>) = Inr \<lparr>Path = ''/k'', Name = ''k''\<rparr>"
    by (rule current_plain_marker) simp_all
  have "editCmd plain [''alpha''] (start (scenario\<lparr>tty := False\<rparr>)) =
          (Success, \<lparr>outside = scenario\<lparr>tty := False\<rparr>,
                     trace = [FmtPrint ''* [Alpha](../3)\<newline>'']\<rparr>)"
    by (simp add: editCmd_def titleCmd_def start_def cur deref_def emit_def WithTitleText_def
                  scenario_dex_def to_lower_def render_line_def)
  moreover have "editCmd plain [] (start scenario) =
                   (Success, \<lparr>outside = scenario, trace = [Helped [] None]\<rparr>)"
    by (simp add: editCmd_def start_def call_def)
  ultimately show ?thesis by simp
qed

subsection \<open>edit: a document left empty\<close>





subsection \<open>Where the code stops short of the claims\<close>

text \<open>
  C2.  In a resolved keg where \<^verbatim>\<open>ReadDex\<close> returns an error, \<^verbatim>\<open>titles\<close> returns that
  error (lines 145-147).  \<^verbatim>\<open>dir\<close> with an argument drops the error (line 170) and
  \<^verbatim>\<open>random\<close> never reads it (line 542): whatever came back as the dex, \<^verbatim>\<open>dir\<close> and
  \<^verbatim>\<open>random id\<close>, \<^verbatim>\<open>random title\<close>, \<^verbatim>\<open>random dir\<close> end without returning any error
  at all, in \<^verbatim>\<open>nil\<close> or in a panic.
\<close>

theorem read_error_returned_by_titles_only:
  assumes "current sys (outside w) = Inr keg"
      and "ReadDex sys (Path keg) (outside w) = (dex, Some e)"
      and "args \<noteq> []"
      and "mode = ''id'' \<or> mode = ''title'' \<or> mode = ''dir''"
  shows "titleCmd sys args w = (Failure e, w) \<and>
         (\<forall>e'. fst (dirCmd sys args w) \<noteq> Failure e') \<and>
         (\<forall>e'. fst (randomCmd sys [mode] w) \<noteq> Failure e')"
proof -
  have t: "titleCmd sys args w = (Failure e, w)"
    using assms(1,2) by (simp add: titleCmd_def Let_def)
  have d: "fst (dirCmd sys args w) \<noteq> Failure e'" for e'
    using assms(1,3)
    by (auto simp: dirCmd_def Let_def split: sum.splits prod.splits option.splits)
  have r: "fst (randomCmd sys [mode] w) \<noteq> Failure e'" for e'
    using assms(1,4)
    by (auto simp: randomCmd_def Let_def arg0_def split: sum.splits prod.splits option.splits)
  from t d r show ?thesis by simp
qed

text \<open>
  On the keg in memory with an index that cannot be read: \<^verbatim>\<open>titles\<close> reports the
  error; \<^verbatim>\<open>dir alpha\<close> and \<^verbatim>\<open>random id\<close> go on with the nil dex and panic.
\<close>

theorem read_error_returned_by_titles_only_witness:
  "titleCmd plain [''alpha''] (start unreadable) =
     (Failure (Foreign ''open /k/dex/latest.md: permission denied''), start unreadable) \<and>
   fst (dirCmd plain [''alpha''] (start unreadable)) \<noteq>
     Failure (Foreign ''open /k/dex/latest.md: permission denied'') \<and>
   fst (randomCmd plain [''id''] (start unreadable)) \<noteq>
     Failure (Foreign ''open /k/dex/latest.md: permission denied'') \<and>
   dirCmd plain [''alpha''] (start unreadable) = (Panicked NilDereference, start unreadable) \<and>
   randomCmd plain [''id''] (start unreadable) = (Panicked NilDereference, start unreadable)"
proof -
  let ?e = "Foreign ''open /k/dex/latest.md: permission denied''"
  have cur: "current plain (outside (start unreadable)) = Inr \<lparr>Path = ''/k'', Name = ''k''\<rparr>"
    unfolding start_def by simp (rule current_plain_marker, simp_all add: unreadable_def)
  have rd: "ReadDex plain (Path \<lparr>Path = ''/k'', Name = ''k''\<rparr>) (outside (start unreadable)) = (None, Some ?e)"
    by (simp add: start_def unreadable_def)
  have a: "titleCmd plain [''alpha''] (start unreadable) = (Failure ?e, start unreadable) \<and>
           (\<forall>e'. fst (dirCmd plain [''alpha''] (start unreadable)) \<noteq> Failure e') \<and>
           (\<forall>e'. fst (randomCmd plain [''id''] (start unreadable)) \<noteq> Failure e')"
    using read_error_returned_by_titles_only [OF cur rd, of "[''alpha'']" "''id''"] by simp
  have b: "dirCmd plain [''alpha''] (start unreadable) = (Panicked NilDereference, start unreadable)"
    using cur rd by (simp add: dirCmd_def deref_def)
  have c: "randomCmd plain [''id''] (start unreadable) = (Panicked NilDereference, start unreadable)"
    using cur rd by (simp add: randomCmd_def deref_def)
  from a b c show ?thesis by simp
qed

text \<open>
  C7.  \<^verbatim>\<open>Random\<close> of the empty dex is \<^verbatim>\<open>nil\<close>.  \<^verbatim>\<open>random\<close> reads a field of what
  \<^verbatim>\<open>Random\<close> returned without comparing it with \<^verbatim>\<open>nil\<close> (lines 546-552): in a resolved
  keg whose dex is empty, each of the modes \<^verbatim>\<open>id\<close>, \<^verbatim>\<open>title\<close>, \<^verbatim>\<open>edit\<close> and \<^verbatim>\<open>dir\<close>, and
  \<^verbatim>\<open>random\<close> without argument, ends in a nil dereference.
\<close>

theorem random_on_empty_dex_panics:
  assumes "current sys (outside w) = Inr keg"
      and "ReadDex sys (Path keg) (outside w) = (Some [], err)"
      and "mode = ''id'' \<or> mode = ''title'' \<or> mode = ''edit'' \<or> mode = ''dir''"
  shows "Random [] k = None \<and>
         randomCmd sys [mode] w = (Panicked NilDereference, w) \<and>
         randomCmd sys [] w = (Panicked NilDereference, w)"
  using assms by (auto simp: randomCmd_def Random_def deref_def arg0_def)

theorem random_on_empty_dex_panics_witness:
  "randomCmd plain [''id''] (start (scenario\<lparr>index := (Some [], None)\<rparr>)) =
     (Panicked NilDereference, start (scenario\<lparr>index := (Some [], None)\<rparr>)) \<and>
   randomCmd plain [''title''] (start (scenario\<lparr>index := (Some [], None)\<rparr>)) =
     (Panicked NilDereference, start (scenario\<lparr>index := (Some [], None)\<rparr>)) \<and>
   randomCmd plain [''edit''] (start (scenario\<lparr>index := (Some [], None)\<rparr>)) =
     (Panicked NilDereference, start (scenario\<lparr>index := (Some [], None)\<rparr>)) \<and>
   randomCmd plain [''dir''] (start (scenario\<lparr>index := (Some [], None)\<rparr>)) =
     (Panicked NilDereference, start (scenario\<lparr>index := (Some [], None)\<rparr>)) \<and>
   randomCmd plain [] (start (scenario\<lparr>index := (Some [], None)\<rparr>)) =
     (Panicked NilDereference, start (scenario\<lparr>index := (Some [], None)\<rparr>))"
proof -
  let ?w = "start (scenario\<lparr>index := (Some [], None)\<rparr>)"
  have cur: "current plain (outside ?w) = Inr \<lparr>Path = ''/k'', Name = ''k''\<rparr>"
    unfolding start_def by simp (rule current_plain_marker, simp_all)
  have rd: "ReadDex plain (Path \<lparr>Path = ''/k'', Name = ''k''\<rparr>) (outside ?w) = (Some [], None)"
    by (simp add: start_def)
  note main = random_on_empty_dex_panics [OF cur rd]
  from main [of "''id''"] main [of "''title''"] main [of "''edit''"] main [of "''dir''"]
  show ?thesis by simp
qed

text \<open>
  C8.  In a resolved keg with a dex loaded, when \<^verbatim>\<open>ChooseWithTitleText\<close> returns
  \<^verbatim>\<open>nil\<close>, \<^verbatim>\<open>dir\<close> reads the field \<^verbatim>\<open>N\<close> of the nil entry (line 172) and panics, where
  \<^verbatim>\<open>edit\<close> with the same text on an interactive terminal returns the error "unable to
  choose a title" (lines 400-402).
\<close>

theorem dir_without_choice_panics:
  assumes "current sys (outside w) = Inr keg"
      and "args = a # rest"
      and "ReadDex sys (Path keg) (outside w) = (Some d, None)"
      and "ChooseWithTitleText sys d (strings_Join args '' '') (outside w) = (None, s1)"
  shows "dirCmd sys args w = (Panicked NilDereference, w\<lparr>outside := s1\<rparr>) \<and>
         (term_IsInteractive sys (outside w) \<and> a \<noteq> ''last'' \<and> isl (Atoi a) \<longrightarrow>
            editCmd sys args w = (Failure UnableToChoose, w\<lparr>outside := s1\<rparr>))"
  using assms
  by (auto simp: dirCmd_def editCmd_def edit_id_def deref_def arg0_def isl_def)

text \<open>
  On the keg in memory: no title holds "zeta" (no match), and the user leaves the
  prompt for "a" without choosing (three matches, abort).
\<close>

theorem dir_without_choice_panics_witness:
  "dirCmd plain [''zeta''] (start scenario) = (Panicked NilDereference, start scenario) \<and>
   editCmd plain [''zeta''] (start scenario) = (Failure UnableToChoose, start scenario) \<and>
   dirCmd plain [''a''] (start scenario) = (Panicked NilDereference, start scenario) \<and>
   editCmd plain [''a''] (start scenario) = (Failure UnableToChoose, start scenario)"
proof -
  let ?w = "start scenario"
  have cur: "current plain (outside ?w) = Inr \<lparr>Path = ''/k'', Name = ''k''\<rparr>"
    unfolding start_def by simp (rule current_plain_marker, simp_all)
  have rd: "ReadDex plain (Path \<lparr>Path = ''/k'', Name = ''k''\<rparr>) (outside ?w) = (Some scenario_dex, None)"
    by (simp add: start_def)
  have z: "ChooseWithTitleText plain scenario_dex (strings_Join [''zeta''] '' '') (outside ?w) =
             (None, scenario)"
    by (simp add: ChooseWithTitleText_def WithTitleText_def scenario_dex_def to_lower_def start_def)
  have a: "ChooseWithTitleText plain scenario_dex (strings_Join [''a''] '' '') (outside ?w) =
             (None, scenario)"
    by (simp add: ChooseWithTitleText_def WithTitleText_def scenario_dex_def to_lower_def start_def)
  have same: "?w\<lparr>outside := scenario\<rparr> = ?w"
    by (simp add: start_def)
  have tty: "term_IsInteractive plain (outside ?w)"
    by (simp add: start_def)
  have n: "isl (Atoi ''zeta'')" "isl (Atoi ''a'')"
    by (simp_all add: Atoi_def digit_val_def)
  from dir_without_choice_panics [OF cur _ rd z, of "''zeta''" "[]"]
       dir_without_choice_panics [OF cur _ rd a, of "''a''" "[]"] tty n
  show ?thesis by (simp add: same)
qed

end
